theory Spec2Isabelle
  imports Main "HOL-Library.AList"
begin

section \<open>Domain entities\<close>

text \<open>
  The entities of \<^verbatim>\<open>internal/domain/entity\<close>. Go struct fields keep their names behind a
  prefix per struct (\<open>ep_\<close>, \<open>svc_\<close>, \<open>req_\<close>, \<open>resp_\<close>), since Request, Response,
  Service and Endpoint share field names. Fields that no modelled function reads
  (Endpoint.RetryCount, RetryDelay, CircuitBreaker, Cache, Transform; Service.Version,
  Description, Timeout, RetryCount, Metadata) are left out.
  Go's \<^verbatim>\<open>int\<close> is modelled as \<open>int\<close>; the one subtraction the modelled code performs on it is
  wrapped explicitly (\<open>wrap64\<close>).
\<close>

record endpoint =
  ep_Path :: string
  ep_Methods :: "string list"
  ep_RateLimit :: int
  ep_AuthRequired :: bool
  ep_Timeout :: int
  ep_CacheTTL :: int

record service =
  svc_ID :: string
  svc_Name :: string
  svc_BaseURL :: string
  svc_IsActive :: bool
  svc_Endpoints :: "endpoint list"

text \<open>
  Errors as values. \<open>Wrapped msg e\<close> is \<^verbatim>\<open>fmt.Errorf("msg: %w", e)\<close>, \<open>Msg m\<close> is an error
  created from a message alone (\<^verbatim>\<open>fmt.Errorf\<close> without \<^verbatim>\<open>%w\<close>, or an error of a library).
\<close>

datatype error =
    ErrNotFound
  | ErrAlreadyExists
  | ErrServiceNotFound
  | ErrInvalidRequest
  | ErrInvalidMethod
  | ErrInvalidPath
  | Msg string
  | Wrapped string error

section \<open>Endpoint lookup on a service\<close>

text \<open>
  \<^verbatim>\<open>Service.FindEndpoint\<close> (entity/service.go): the first endpoint, in declaration order, whose
  path equals \<open>path\<close> and whose methods list contains \<open>method\<close>.
\<close>

definition FindEndpoint :: "service \<Rightarrow> string \<Rightarrow> string \<Rightarrow> endpoint option" where
  "FindEndpoint s path method =
     find (\<lambda>endpoint. ep_Path endpoint = path \<and> list_ex (\<lambda>m. m = method) (ep_Methods endpoint))
       (svc_Endpoints s)"

section \<open>The in-memory service registry\<close>

text \<open>
  \<^verbatim>\<open>ServiceRepositoryMock\<close> keeps \<^verbatim>\<open>services map[string]*entity.Service\<close>. The map is modelled as
  an association list: the order of the list is the order in which one \<^verbatim>\<open>range\<close> loop visits
  the map (Go leaves it unspecified; no theorem below depends on it), an assignment
  \<^verbatim>\<open>r.services[k] = s\<close> is \<open>AList.update\<close>, \<^verbatim>\<open>delete\<close> is \<open>AList.delete\<close>, and a lookup is
  \<open>map_of\<close>. The stored records are taken by value: the registry state of a call is the content
  the stored services have when the call is made.
\<close>

type_synonym registry = "(string \<times> service) list"

definition Create :: "registry \<Rightarrow> service \<Rightarrow> error + registry" where
  "Create r s =
     (if list_ex (\<lambda>(k, s'). svc_Name s' = svc_Name s) r then Inl ErrAlreadyExists
      else let s1 = (if svc_ID s = [] then s\<lparr>svc_ID := ''test-id''\<rparr> else s)
           in Inr (AList.update (svc_ID s1) s1 r))"

definition Get :: "registry \<Rightarrow> string \<Rightarrow> error + service" where
  "Get r ident = (case map_of r ident of None \<Rightarrow> Inl ErrNotFound | Some s \<Rightarrow> Inr s)"

definition Update :: "registry \<Rightarrow> service \<Rightarrow> error + registry" where
  "Update r s =
     (case map_of r (svc_ID s) of
        None \<Rightarrow> Inl ErrNotFound
      | Some _ \<Rightarrow>
          if list_ex (\<lambda>(k, s'). svc_Name s' = svc_Name s \<and> svc_ID s' \<noteq> svc_ID s) r
          then Inl ErrAlreadyExists
          else Inr (AList.update (svc_ID s) s r))"

definition Delete :: "registry \<Rightarrow> string \<Rightarrow> error + registry" where
  "Delete r ident =
     (case map_of r ident of
        None \<Rightarrow> Inl ErrNotFound
      | Some _ \<Rightarrow> Inr (AList.delete ident r))"

text \<open>
  \<^verbatim>\<open>ServiceRepositoryMock.GetByEndpoint\<close>. The \<^verbatim>\<open>break\<close> leaves the loop over the methods only,
  so a service is appended once for each of its endpoints that matches.
\<close>

definition method_supported :: "string list \<Rightarrow> string \<Rightarrow> bool" where
  "method_supported methods method =
     list_ex (\<lambda>supportedMethod. supportedMethod = method \<or> supportedMethod = ''*'') methods"

definition endpoint_matches :: "string \<Rightarrow> string \<Rightarrow> endpoint \<Rightarrow> bool" where
  "endpoint_matches path method endpoint =
     (ep_Path endpoint = path \<and> method_supported (ep_Methods endpoint) method)"

definition matches_of_service :: "string \<Rightarrow> string \<Rightarrow> service \<Rightarrow> service list" where
  "matches_of_service path method s =
     map (\<lambda>_. s) (filter (endpoint_matches path method) (svc_Endpoints s))"

definition GetByEndpoint :: "registry \<Rightarrow> string \<Rightarrow> string \<Rightarrow> error + service list" where
  "GetByEndpoint r path method =
     (let matchingServices = concat (map (\<lambda>(k, s). matches_of_service path method s) r)
      in if length matchingServices = 0 then Inl ErrNotFound else Inr matchingServices)"

text \<open>
  The state the registry is in after any sequence of its own operations: keys are distinct
  (it is a map), every service is stored under its own ID, and no two stored services share a
  name.
\<close>

definition registry_ok :: "registry \<Rightarrow> bool" where
  "registry_ok r =
     (distinct (map fst r) \<and> list_all (\<lambda>(k, s). svc_ID s = k) r
      \<and> distinct (map (\<lambda>(k, s). svc_Name s) r))"



section \<open>Requests, responses and the header maps they share\<close>

text \<open>
  A Go \<^verbatim>\<open>map[string][]string\<close> is a reference: copying a struct that holds one copies the
  reference, not the map. The maps therefore live in an explicit store; a struct field of map
  type holds \<open>None\<close> (nil) or the address of a map. \<open>alloc_map\<close> is \<^verbatim>\<open>make(map[string][]string)\<close>,
  \<open>map_store h a k v\<close> is the assignment \<^verbatim>\<open>m[k] = v\<close> through the reference \<open>a\<close>.
  Byte slices are strings; times are whole seconds.
\<close>

type_synonym header_map = "string \<rightharpoonup> string list"

type_synonym addr = nat

record heap =
  cells :: "addr \<Rightarrow> header_map"
  next_free :: addr

definition alloc_map :: "heap \<Rightarrow> addr \<times> heap" where
  "alloc_map h =
     (next_free h, h\<lparr>cells := (cells h)(next_free h := Map.empty), next_free := Suc (next_free h)\<rparr>)"

definition map_store :: "heap \<Rightarrow> addr \<Rightarrow> string \<Rightarrow> string list \<Rightarrow> heap" where
  "map_store h a k v = h\<lparr>cells := (cells h)(a := (cells h a)(k \<mapsto> v))\<rparr>"

text \<open>What a reader of a map-typed field sees: nil reads as the empty map.\<close>

definition headers_at :: "heap \<Rightarrow> addr option \<Rightarrow> header_map" where
  "headers_at h ref = (case ref of None \<Rightarrow> Map.empty | Some a \<Rightarrow> cells h a)"

record request =
  req_ID :: string
  req_Method :: string
  req_Path :: string
  req_Headers :: "addr option"
  req_QueryParams :: "addr option"
  req_Body :: string
  req_ClientIP :: string
  req_Timestamp :: nat
  req_Authenticated :: bool
  req_UserID :: string
  req_Timeout :: int

record response =
  resp_RequestID :: string
  resp_StatusCode :: int
  resp_Headers :: "addr option"
  resp_Body :: string
  resp_ContentType :: string
  resp_ContentLength :: int
  resp_Timestamp :: nat
  resp_LatencyMs :: int
  resp_CachedResult :: bool

section \<open>The gateway service\<close>

text \<open>
  \<^verbatim>\<open>GatewayService\<close> of package \<^verbatim>\<open>client\<close>, the implementation that \<^verbatim>\<open>cmd/api/main.go\<close> wires
  into the proxy use case. A \<^verbatim>\<open>*entity.Request\<close> argument is \<open>None\<close> when nil.
  \<^verbatim>\<open>TransformRequest\<close> leaves \<^verbatim>\<open>Authenticated\<close> and \<^verbatim>\<open>Timeout\<close> at their zero values, and copies the
  references of \<^verbatim>\<open>Headers\<close> and \<^verbatim>\<open>QueryParams\<close>; \<^verbatim>\<open>TransformResponse\<close> leaves
  \<^verbatim>\<open>ContentLength\<close> at its zero value. The error result of both is always nil.
\<close>

definition ValidateRequest :: "request option \<Rightarrow> error option" where
  "ValidateRequest request =
     (case request of
        None \<Rightarrow> Some ErrInvalidRequest
      | Some r \<Rightarrow>
          if req_Method r = [] then Some ErrInvalidMethod
          else if req_Path r = [] then Some ErrInvalidPath
          else None)"

definition TransformRequest :: "heap \<Rightarrow> request \<Rightarrow> service \<Rightarrow> (error + request) \<times> heap" where
  "TransformRequest h request svc =
     (let transformed =
            \<lparr>req_ID = req_ID request, req_Method = req_Method request,
             req_Path = req_Path request, req_Headers = req_Headers request,
             req_QueryParams = req_QueryParams request, req_Body = req_Body request,
             req_ClientIP = req_ClientIP request, req_Timestamp = req_Timestamp request,
             req_Authenticated = False, req_UserID = req_UserID request, req_Timeout = 0\<rparr>;
          (a, h1) = (case req_Headers transformed of
                       None \<Rightarrow> alloc_map h
                     | Some a \<Rightarrow> (a, h));
          h2 = map_store h1 a ''X-Service-ID'' [svc_ID svc];
          h3 = map_store h2 a ''X-Service-Name'' [svc_Name svc]
      in (Inr (transformed\<lparr>req_Headers := Some a\<rparr>), h3))"

definition TransformResponse :: "heap \<Rightarrow> response \<Rightarrow> service \<Rightarrow> (error + response) \<times> heap" where
  "TransformResponse h response svc =
     (let transformed =
            \<lparr>resp_RequestID = resp_RequestID response, resp_StatusCode = resp_StatusCode response,
             resp_Headers = resp_Headers response, resp_Body = resp_Body response,
             resp_ContentType = resp_ContentType response, resp_ContentLength = 0,
             resp_Timestamp = resp_Timestamp response, resp_LatencyMs = resp_LatencyMs response,
             resp_CachedResult = resp_CachedResult response\<rparr>;
          (a, h1) = (case resp_Headers transformed of
                       None \<Rightarrow> alloc_map h
                     | Some a \<Rightarrow> (a, h));
          h2 = map_store h1 a ''X-Service-ID'' [svc_ID svc];
          h3 = map_store h2 a ''X-Service-Name'' [svc_Name svc]
      in (Inr (transformed\<lparr>resp_Headers := Some a\<rparr>), h3))"

text \<open>The eight hop-by-hop header names of the specification.\<close>

definition hopByHopHeaders :: "string list" where
  "hopByHopHeaders =
     [''Connection'', ''Keep-Alive'', ''Proxy-Authenticate'', ''Proxy-Authorization'',
      ''TE'', ''Trailers'', ''Transfer-Encoding'', ''Upgrade'']"

section \<open>The key-value store\<close>

text \<open>
  The Redis server behind \<^verbatim>\<open>redis.Client\<close>, shared by the cache and the rate limiter
  (\<^verbatim>\<open>cmd/api/main.go\<close> hands the same client to both). Only the commands the code issues are
  modelled, with the semantics Redis documents for them:
  \<^item> a key with an expiry time that has been reached does not exist;
  \<^item> \<^verbatim>\<open>DECR\<close> of a key that does not exist sets it to 0 first, so it answers -1, and the new
    key has no expiry; \<^verbatim>\<open>DECR\<close> keeps the expiry of an existing key, and fails on a value that
    is not a 64-bit integer or would leave the 64-bit range;
  \<^item> \<^verbatim>\<open>SET\<close> with a positive expiration sets the expiry, with expiration 0 it stores the key
    without expiry;
  \<^item> \<^verbatim>\<open>EXPIRE\<close> answers false on a key that does not exist;
  \<^item> \<^verbatim>\<open>SCAN\<close> with a \<^verbatim>\<open>MATCH\<close> pattern, iterated to its end, yields the existing keys the
    glob pattern matches.
  A stored value is the text of a decimal integer or the JSON text of a response (the only
  texts the modelled code writes). The store always answers: connection failures are not
  modelled.
\<close>

datatype payload =
    IntText int
  | ResponseJSON response "header_map option"

record redis_entry =
  re_value :: payload
  re_expires :: "nat option"

type_synonym redis = "(string \<times> redis_entry) list"

definition live :: "nat \<Rightarrow> redis_entry \<Rightarrow> bool" where
  "live now e = (case re_expires e of None \<Rightarrow> True | Some t \<Rightarrow> now < t)"

definition redis_lookup :: "nat \<Rightarrow> redis \<Rightarrow> string \<Rightarrow> redis_entry option" where
  "redis_lookup now st key =
     (case map_of st key of
        None \<Rightarrow> None
      | Some e \<Rightarrow> if live now e then Some e else None)"

definition redis_Get :: "nat \<Rightarrow> redis \<Rightarrow> string \<Rightarrow> payload option" where
  "redis_Get now st key = map_option re_value (redis_lookup now st key)"

definition redis_Set :: "nat \<Rightarrow> redis \<Rightarrow> string \<Rightarrow> payload \<Rightarrow> int \<Rightarrow> redis" where
  "redis_Set now st key v ttl =
     AList.update key
       \<lparr>re_value = v, re_expires = (if 0 < ttl then Some (now + nat ttl) else None)\<rparr> st"

definition redis_Del :: "redis \<Rightarrow> string \<Rightarrow> redis" where
  "redis_Del st key = AList.delete key st"

definition int64_range :: "int \<Rightarrow> bool" where
  "int64_range n = (- (2 ^ 63) \<le> n \<and> n < 2 ^ 63)"

definition wrap64 :: "int \<Rightarrow> int" where
  "wrap64 n = (n + 2 ^ 63) mod 2 ^ 64 - 2 ^ 63"

definition redis_Decr :: "nat \<Rightarrow> redis \<Rightarrow> string \<Rightarrow> error + (int \<times> redis)" where
  "redis_Decr now st key =
     (case redis_lookup now st key of
        None \<Rightarrow> Inr (- 1, AList.update key \<lparr>re_value = IntText (- 1), re_expires = None\<rparr> st)
      | Some e \<Rightarrow>
          (case re_value e of
             IntText n \<Rightarrow>
               if int64_range n \<and> int64_range (n - 1)
               then Inr (n - 1, AList.update key (e\<lparr>re_value := IntText (n - 1)\<rparr>) st)
               else Inl (Msg ''ERR value is not an integer or out of range'')
           | ResponseJSON _ _ \<Rightarrow> Inl (Msg ''ERR value is not an integer or out of range'')))"

definition redis_Expire :: "nat \<Rightarrow> redis \<Rightarrow> string \<Rightarrow> nat \<Rightarrow> bool \<times> redis" where
  "redis_Expire now st key seconds =
     (case redis_lookup now st key of
        None \<Rightarrow> (False, st)
      | Some e \<Rightarrow> (True, AList.update key (e\<lparr>re_expires := Some (now + seconds)\<rparr>) st))"

text \<open>
  Glob matching of \<^verbatim>\<open>SCAN ... MATCH\<close>: \<^verbatim>\<open>*\<close> matches any run of characters, \<^verbatim>\<open>?\<close> one
  character, any other character itself. Character classes and escapes are not modelled; the
  only pattern the code passes is \<^verbatim>\<open>*\<close>.
\<close>

fun glob_match :: "string \<Rightarrow> string \<Rightarrow> bool" where
  "glob_match [] s = (s = [])"
| "glob_match (p # ps) [] = (p = CHR ''*'' \<and> glob_match ps [])"
| "glob_match (p # ps) (c # cs) =
     (if p = CHR ''*'' then glob_match ps (c # cs) \<or> glob_match (p # ps) cs
      else if p = CHR ''?'' then glob_match ps cs
      else p = c \<and> glob_match ps cs)"

definition redis_Scan :: "nat \<Rightarrow> redis \<Rightarrow> string \<Rightarrow> string list" where
  "redis_Scan now st pattern =
     filter (glob_match pattern) (map fst (filter (\<lambda>(k, e). live now e) st))"

section \<open>The token-bucket rate limiter\<close>

text \<open>
  \<^verbatim>\<open>TokenBucketRateLimiter\<close> (ratelimit/token_bucket.go). \<^verbatim>\<open>Get(...).Int()\<close> answers
  \<^verbatim>\<open>redis.Nil\<close> for a key that does not exist and a parse error for a value that is not the text
  of an integer. \<^verbatim>\<open>time.Minute\<close> is 60 seconds. The outcome of \<^verbatim>\<open>Expire\<close> is discarded by the code.
\<close>

definition ratelimit_key :: "request \<Rightarrow> service \<Rightarrow> string" where
  "ratelimit_key request svc =
     ''ratelimit:'' @ svc_ID svc @ '':'' @ req_Path request @ '':'' @ req_ClientIP request"

definition CheckLimit :: "nat \<Rightarrow> redis \<Rightarrow> request \<Rightarrow> service \<Rightarrow> endpoint \<Rightarrow> error + bool" where
  "CheckLimit now st request svc endpoint =
     (case redis_Get now st (ratelimit_key request svc) of
        Some (ResponseJSON _ _) \<Rightarrow> Inl (Msg ''strconv.Atoi: invalid syntax'')
      | Some (IntText n) \<Rightarrow>
          if int64_range n then (if n \<le> 0 then Inr False else Inr True)
          else Inl (Msg ''strconv.Atoi: value out of range'')
      | None \<Rightarrow> if ep_RateLimit endpoint \<le> 0 then Inr False else Inr True)"

definition RecordRequest ::
  "nat \<Rightarrow> redis \<Rightarrow> request \<Rightarrow> service \<Rightarrow> endpoint \<Rightarrow> error option \<times> redis" where
  "RecordRequest now st request svc endpoint =
     (case redis_Decr now st (ratelimit_key request svc) of
        Inl err \<Rightarrow> (Some err, st)
      | Inr (count, st1) \<Rightarrow>
          if count = wrap64 (ep_RateLimit endpoint - 1)
          then (None, snd (redis_Expire now st1 (ratelimit_key request svc) 60))
          else (None, st1))"

text \<open>\<open>k\<close> consecutive calls of \<^verbatim>\<open>RecordRequest\<close>, all at time \<open>now\<close>, errors ignored.\<close>

fun record_times ::
  "nat \<Rightarrow> nat \<Rightarrow> redis \<Rightarrow> request \<Rightarrow> service \<Rightarrow> endpoint \<Rightarrow> redis" where
  "record_times 0 now st request svc endpoint = st"
| "record_times (Suc k) now st request svc endpoint =
     record_times k now (snd (RecordRequest now st request svc endpoint)) request svc endpoint"

section \<open>The response cache\<close>

text \<open>
  \<^verbatim>\<open>RedisCache\<close> and \<^verbatim>\<open>CacheServiceAdapter\<close>. The values behind Go's \<^verbatim>\<open>interface{}\<close> that occur:
  a \<^verbatim>\<open>*entity.Response\<close> (what the pipeline stores), and what \<^verbatim>\<open>json.Unmarshal\<close> yields when its
  target is an \<^verbatim>\<open>*interface{}\<close>, as in \<^verbatim>\<open>CacheServiceAdapter.Get\<close>: a \<^verbatim>\<open>float64\<close> for a number
  and a \<^verbatim>\<open>map[string]interface{}\<close> for an object. \<open>GenericObject r hm\<close> is that generic map for
  the JSON text \<open>ResponseJSON r hm\<close>, which carries the scalar fields of a response (\<open>r\<close>, its
  map reference blanked) and the content \<open>hm\<close> of its header map; the dynamic type of the
  generic map is not \<^verbatim>\<open>*entity.Response\<close>. \<^verbatim>\<open>json.Marshal\<close> reads the header map of a response at the time of the
  call, and cannot fail on these values.
\<close>

datatype go_value =
    ResponsePtr response
  | Float64 int
  | GenericObject response "header_map option"

definition json_Marshal :: "heap \<Rightarrow> go_value \<Rightarrow> payload" where
  "json_Marshal h v =
     (case v of
        ResponsePtr r \<Rightarrow>
          ResponseJSON (r\<lparr>resp_Headers := None\<rparr>) (map_option (cells h) (resp_Headers r))
      | Float64 n \<Rightarrow> IntText n
      | GenericObject r hm \<Rightarrow> ResponseJSON r hm)"

definition json_Unmarshal :: "payload \<Rightarrow> go_value" where
  "json_Unmarshal data =
     (case data of
        IntText n \<Rightarrow> Float64 n
      | ResponseJSON r hm \<Rightarrow> GenericObject r hm)"

definition RedisCache_Set ::
  "nat \<Rightarrow> heap \<Rightarrow> redis \<Rightarrow> string \<Rightarrow> go_value \<Rightarrow> int \<Rightarrow> error option \<times> redis" where
  "RedisCache_Set now h st key v ttl = (None, redis_Set now st key (json_Marshal h v) ttl)"

definition RedisCache_Get :: "nat \<Rightarrow> redis \<Rightarrow> string \<Rightarrow> error + go_value" where
  "RedisCache_Get now st key =
     (case redis_Get now st key of
        None \<Rightarrow> Inl ErrNotFound
      | Some data \<Rightarrow> Inr (json_Unmarshal data))"

definition RedisCache_Delete :: "redis \<Rightarrow> string \<Rightarrow> error option \<times> redis" where
  "RedisCache_Delete st key = (None, redis_Del st key)"

definition RedisCache_Clear :: "nat \<Rightarrow> redis \<Rightarrow> string \<Rightarrow> error option \<times> redis" where
  "RedisCache_Clear now st pattern =
     (None, fold (\<lambda>key st'. redis_Del st' key) (redis_Scan now st pattern) st)"

definition CacheService_Get ::
  "nat \<Rightarrow> redis \<Rightarrow> string \<Rightarrow> go_value option \<times> bool \<times> error option" where
  "CacheService_Get now st key =
     (case RedisCache_Get now st key of
        Inl err \<Rightarrow> (None, False, Some err)
      | Inr v \<Rightarrow> (Some v, True, None))"

definition CacheService_Set ::
  "nat \<Rightarrow> heap \<Rightarrow> redis \<Rightarrow> string \<Rightarrow> go_value \<Rightarrow> int \<Rightarrow> error option \<times> redis" where
  "CacheService_Set now h st key v ttl = RedisCache_Set now h st key v ttl"

definition CacheService_Delete :: "redis \<Rightarrow> string \<Rightarrow> error option \<times> redis" where
  "CacheService_Delete st key = RedisCache_Delete st key"

definition CacheService_Clear :: "nat \<Rightarrow> redis \<Rightarrow> error option \<times> redis" where
  "CacheService_Clear now st = RedisCache_Clear now st ''*''"

section \<open>The proxy pipeline\<close>

text \<open>
  \<^verbatim>\<open>ProxyUseCase.ProxyRequest\<close> (usecase/proxy_usecase.go). The use case holds its collaborators
  behind interfaces. The gateway service, the rate limiter and the cache service are the
  implementations above, which \<^verbatim>\<open>cmd/api/main.go\<close> wires in. The service repository, the
  auth service and the wire-level HTTP call are parameters (\<open>collaborators\<close>):
  \<^item> \<open>repo_GetByEndpoint\<close> is \<^verbatim>\<open>serviceRepo.GetByEndpoint\<close>;
  \<^item> \<open>auth_Authenticate\<close> and \<open>auth_Authorize\<close> are the two calls of \<^verbatim>\<open>authService\<close>; they get the
    content of the request's header map;
  \<^item> \<open>http_Do\<close> is what \<^verbatim>\<open>HTTPClient.SendRequest\<close> does between reading the request and building
    the \<^verbatim>\<open>entity.Response\<close>: it gets method, target URL (base URL and path; the query string is
    not modelled), the outgoing headers and the body, and answers the reply or the error that
    \<^verbatim>\<open>SendRequest\<close> returns. Canonicalisation of header names by \<^verbatim>\<open>net/http\<close> is not modelled.
  The state is the header-map store, the key-value store and the clock. \<open>w_backend_calls\<close>
  counts the calls of \<^verbatim>\<open>SendRequest\<close>; no modelled function reads it.
\<close>

record http_reply =
  reply_StatusCode :: int
  reply_Header :: header_map
  reply_Body :: string
  reply_LatencyMs :: int

record collaborators =
  repo_GetByEndpoint :: "string \<Rightarrow> string \<Rightarrow> error + service list"
  auth_Authenticate :: "header_map \<Rightarrow> request \<Rightarrow> bool \<times> string \<times> error option"
  auth_Authorize :: "header_map \<Rightarrow> request \<Rightarrow> service \<Rightarrow> endpoint \<Rightarrow> error option"
  http_Do :: "string \<Rightarrow> string \<Rightarrow> header_map \<Rightarrow> string \<Rightarrow> error + http_reply"

record world =
  w_heap :: heap
  w_redis :: redis
  w_now :: nat
  w_backend_calls :: nat

definition SendRequest ::
  "collaborators \<Rightarrow> world \<Rightarrow> request \<Rightarrow> service \<Rightarrow> (error + response) \<times> world" where
  "SendRequest c w request svc =
     (let outgoing = (headers_at (w_heap w) (req_Headers request))
                       (''X-Forwarded-For'' \<mapsto> [req_ClientIP request],
                        ''X-Request-ID'' \<mapsto> [req_ID request]);
          w1 = w\<lparr>w_backend_calls := Suc (w_backend_calls w)\<rparr>
      in case http_Do c (req_Method request) (svc_BaseURL svc @ req_Path request) outgoing
                (req_Body request) of
           Inl err \<Rightarrow> (Inl err, w1)
         | Inr reply \<Rightarrow>
             let (a, h1) = alloc_map (w_heap w1);
                 h2 = h1\<lparr>cells := (cells h1)(a := reply_Header reply)\<rparr>
             in (Inr \<lparr>resp_RequestID = req_ID request,
                      resp_StatusCode = reply_StatusCode reply,
                      resp_Headers = Some a,
                      resp_Body = reply_Body reply,
                      resp_ContentType =
                        (case reply_Header reply ''Content-Type'' of
                           Some (v # vs) \<Rightarrow> v
                         | _ \<Rightarrow> []),
                      resp_ContentLength = 0,
                      resp_Timestamp = w_now w,
                      resp_LatencyMs = reply_LatencyMs reply,
                      resp_CachedResult = False\<rparr>,
                 w1\<lparr>w_heap := h2\<rparr>))"

definition RouteRequest ::
  "collaborators \<Rightarrow> world \<Rightarrow> request \<Rightarrow> (error + response) \<times> world" where
  "RouteRequest c w request =
     SendRequest c w request
       \<lparr>svc_ID = ''dummy'', svc_Name = ''dummy'', svc_BaseURL = ''http://localhost'',
        svc_IsActive = False, svc_Endpoints = []\<rparr>"

text \<open>Lines 63 to 70 of \<^verbatim>\<open>ProxyRequest\<close>: the loop that picks the endpoint of the service.\<close>

definition endpoint_for_path :: "endpoint list \<Rightarrow> string \<Rightarrow> endpoint option" where
  "endpoint_for_path endpoints path = find (\<lambda>e. ep_Path e = path) endpoints"

definition cacheKey :: "service \<Rightarrow> request \<Rightarrow> string" where
  "cacheKey svc request = svc_ID svc @ '':'' @ req_Path request @ '':'' @ req_Method request"

text \<open>Lines 125 to 151: transform, route, transform the response, store it.\<close>

definition ProxyRequest_forward ::
  "collaborators \<Rightarrow> world \<Rightarrow> request \<Rightarrow> service \<Rightarrow> endpoint \<Rightarrow> (error + response) \<times> world" where
  "ProxyRequest_forward c w request svc endpoint =
     (case TransformRequest (w_heap w) request svc of
        (Inl err, h1) \<Rightarrow> (Inl (Wrapped ''failed to transform request'' err), w\<lparr>w_heap := h1\<rparr>)
      | (Inr transformedRequest, h1) \<Rightarrow>
          (case RouteRequest c (w\<lparr>w_heap := h1\<rparr>) transformedRequest of
             (Inl err, w2) \<Rightarrow> (Inl (Wrapped ''failed to route request'' err), w2)
           | (Inr response, w2) \<Rightarrow>
               (case TransformResponse (w_heap w2) response svc of
                  (Inl err, h3) \<Rightarrow>
                    (Inl (Wrapped ''failed to transform response'' err), w2\<lparr>w_heap := h3\<rparr>)
                | (Inr transformedResponse, h3) \<Rightarrow>
                    (Inr transformedResponse,
                     if 0 < ep_CacheTTL endpoint
                     then w2\<lparr>w_heap := h3,
                             w_redis := snd (CacheService_Set (w_now w2) h3 (w_redis w2)
                               (cacheKey svc request) (ResponsePtr transformedResponse) 0)\<rparr>
                     else w2\<lparr>w_heap := h3\<rparr>))))"

text \<open>Lines 113 to 123: the cache lookup.\<close>

definition ProxyRequest_cached ::
  "collaborators \<Rightarrow> world \<Rightarrow> request \<Rightarrow> service \<Rightarrow> endpoint \<Rightarrow> (error + response) \<times> world" where
  "ProxyRequest_cached c w request svc endpoint =
     (if 0 < ep_CacheTTL endpoint
      then (case CacheService_Get (w_now w) (w_redis w) (cacheKey svc request) of
              (Some (ResponsePtr response), True, None) \<Rightarrow>
                (Inr (response\<lparr>resp_CachedResult := True\<rparr>), w)
            | _ \<Rightarrow> ProxyRequest_forward c w request svc endpoint)
      else ProxyRequest_forward c w request svc endpoint)"

text \<open>Lines 96 to 111: the rate limit. A failure of \<^verbatim>\<open>RecordRequest\<close> is logged only.\<close>

definition ProxyRequest_limited ::
  "collaborators \<Rightarrow> world \<Rightarrow> request \<Rightarrow> service \<Rightarrow> endpoint \<Rightarrow> (error + response) \<times> world" where
  "ProxyRequest_limited c w request svc endpoint =
     (if 0 < ep_RateLimit endpoint
      then (case CheckLimit (w_now w) (w_redis w) request svc endpoint of
              Inl err \<Rightarrow> (Inl (Wrapped ''rate limit check failed'' err), w)
            | Inr allowed \<Rightarrow>
                if allowed
                then ProxyRequest_cached c
                       (w\<lparr>w_redis := snd (RecordRequest (w_now w) (w_redis w) request svc endpoint)\<rparr>)
                       request svc endpoint
                else (Inl (Msg ''rate limit exceeded''), w))
      else ProxyRequest_cached c w request svc endpoint)"

text \<open>
  Lines 44 to 94. After a successful validation the request is not nil; the branch for nil
  there only makes the case distinction complete.
\<close>

definition ProxyRequest ::
  "collaborators \<Rightarrow> world \<Rightarrow> request option \<Rightarrow> (error + response) \<times> world" where
  "ProxyRequest c w request =
     (case ValidateRequest request of
        Some err \<Rightarrow> (Inl (Wrapped ''invalid request'' err), w)
      | None \<Rightarrow>
          (case request of
             None \<Rightarrow> (Inl (Wrapped ''invalid request'' ErrInvalidRequest), w)
           | Some req \<Rightarrow>
               (case repo_GetByEndpoint c (req_Path req) (req_Method req) of
                  Inl err \<Rightarrow> (Inl err, w)
                | Inr [] \<Rightarrow> (Inl ErrServiceNotFound, w)
                | Inr (svc # others) \<Rightarrow>
                    (case endpoint_for_path (svc_Endpoints svc) (req_Path req) of
                       None \<Rightarrow> (Inl (Msg (''no endpoint found for path: '' @ req_Path req)), w)
                     | Some endpoint \<Rightarrow>
                         if ep_AuthRequired endpoint
                         then (case auth_Authenticate c
                                      (headers_at (w_heap w) (req_Headers req)) req of
                                 (authenticated, userID, Some err) \<Rightarrow>
                                   (Inl (Wrapped ''authentication failed'' err), w)
                               | (authenticated, userID, None) \<Rightarrow>
                                   if authenticated
                                   then (case auth_Authorize c
                                                (headers_at (w_heap w) (req_Headers req))
                                                (req\<lparr>req_UserID := userID\<rparr>) svc endpoint of
                                           Some err \<Rightarrow>
                                             (Inl (Wrapped ''authorization failed'' err), w)
                                         | None \<Rightarrow>
                                             ProxyRequest_limited c w
                                               (req\<lparr>req_UserID := userID\<rparr>) svc endpoint)
                                   else (Inl (Msg ''unauthorized''), w))
                         else ProxyRequest_limited c w req svc endpoint))))"

section \<open>Token issuance and verification\<close>

text \<open>
  \<^verbatim>\<open>JWTAuth.GenerateToken\<close> and \<^verbatim>\<open>JWTAuth.ValidateToken\<close> (auth/jwt_auth.go) over a model of
  the library they call (\<^verbatim>\<open>golang-jwt/jwt/v5\<close> and, under it, \<^verbatim>\<open>encoding/json\<close>).

  A claims map (\<^verbatim>\<open>map[string]interface{}\<close>, \<^verbatim>\<open>jwt.MapClaims\<close>) is an association list from claim
  names to values; a value is given by its JSON encoding: null, a boolean, a number (whole
  numbers only), a string, an array, an object. \<open>ClaimUnsupported\<close> stands for a Go value that
  \<^verbatim>\<open>json.Marshal\<close> refuses (a channel, a function, a complex number, a NaN), alone or inside an
  array or an object. Numbers stay inside the range that \<^verbatim>\<open>float64\<close> represents exactly, as
  Unix times do; no rounding is modelled.

  \<^verbatim>\<open>json.Marshal\<close> writes a Go string as valid UTF-8: every byte that does not start a valid
  UTF-8 sequence (\<^verbatim>\<open>utf8.DecodeRuneInString\<close> answers \<^verbatim>\<open>RuneError\<close> with width 1) is replaced by
  the three bytes of U+FFFD. \<open>utf8_seq_len\<close> is the length of the valid sequence at the head of
  a string, 0 when there is none; \<open>utf8_coerce\<close> is the string as it arrives after encoding and
  decoding. The user ID and the issuer are Go strings and pass through it; the names and
  values of custom claims are taken as JSON carries them.
\<close>

datatype claim_value =
    ClaimNull
  | ClaimBool bool
  | ClaimNumber int
  | ClaimString string
  | ClaimList "claim_value list"
  | ClaimObject "(string \<times> claim_value) list"
  | ClaimUnsupported

















section \<open>Example data\<close>

text \<open>Concrete services, requests and stores for the closed theorems below.\<close>

definition ep_users_get :: endpoint where
  "ep_users_get = \<lparr>ep_Path = ''/v1/users'', ep_Methods = [''GET''], ep_RateLimit = 2,
     ep_AuthRequired = False, ep_Timeout = 0, ep_CacheTTL = 0\<rparr>"

definition svc_users :: service where
  "svc_users = \<lparr>svc_ID = ''svc-1'', svc_Name = ''users'', svc_BaseURL = ''http://users:8080'',
     svc_IsActive = True, svc_Endpoints = [ep_users_get]\<rparr>"

definition svc_orders :: service where
  "svc_orders = \<lparr>svc_ID = ''svc-2'', svc_Name = ''orders'', svc_BaseURL = ''http://orders:8080'',
     svc_IsActive = True, svc_Endpoints = []\<rparr>"


definition svc_billing :: service where
  "svc_billing = \<lparr>svc_ID = [], svc_Name = ''billing'', svc_BaseURL = ''http://billing:8080'',
     svc_IsActive = True, svc_Endpoints = []\<rparr>"

definition reg_two :: registry where
  "reg_two = [(''svc-1'', svc_users), (''svc-2'', svc_orders)]"

definition heap_one :: heap where
  "heap_one =
     \<lparr>cells = (\<lambda>a. Map.empty)
         (0 := [''Accept'' \<mapsto> [''*/*''], ''Connection'' \<mapsto> [''keep-alive'']]),
      next_free = 1\<rparr>"

definition req_users :: request where
  "req_users = \<lparr>req_ID = ''req-1'', req_Method = ''GET'', req_Path = ''/v1/users'',
     req_Headers = Some 0, req_QueryParams = None, req_Body = [], req_ClientIP = ''10.0.0.1'',
     req_Timestamp = 0, req_Authenticated = False, req_UserID = [], req_Timeout = 30\<rparr>"

definition resp_backend :: response where
  "resp_backend = \<lparr>resp_RequestID = ''req-1'', resp_StatusCode = 200, resp_Headers = Some 0,
     resp_Body = ''{}'', resp_ContentType = ''application/json'', resp_ContentLength = 0,
     resp_Timestamp = 0, resp_LatencyMs = 3, resp_CachedResult = False\<rparr>"

definition store_counter :: redis where
  "store_counter =
     [(''ratelimit:svc-1:/v1/users:10.0.0.1'', \<lparr>re_value = IntText 1, re_expires = Some 60\<rparr>)]"

definition ep_items_post :: endpoint where
  "ep_items_post = \<lparr>ep_Path = ''/v1/items'', ep_Methods = [''POST''], ep_RateLimit = 0,
     ep_AuthRequired = True, ep_Timeout = 0, ep_CacheTTL = 0\<rparr>"

definition ep_items_get :: endpoint where
  "ep_items_get = \<lparr>ep_Path = ''/v1/items'', ep_Methods = [''GET''], ep_RateLimit = 0,
     ep_AuthRequired = False, ep_Timeout = 0, ep_CacheTTL = 0\<rparr>"

definition svc_items :: service where
  "svc_items = \<lparr>svc_ID = ''svc-4'', svc_Name = ''items'', svc_BaseURL = ''http://items:8080'',
     svc_IsActive = True, svc_Endpoints = [ep_items_post, ep_items_get]\<rparr>"

definition ep_report :: endpoint where
  "ep_report = \<lparr>ep_Path = ''/v1/report'', ep_Methods = [''GET''], ep_RateLimit = 0,
     ep_AuthRequired = False, ep_Timeout = 0, ep_CacheTTL = 30\<rparr>"

definition svc_report :: service where
  "svc_report = \<lparr>svc_ID = ''svc-5'', svc_Name = ''report'', svc_BaseURL = ''http://report:8080'',
     svc_IsActive = True, svc_Endpoints = [ep_report]\<rparr>"

definition reg_gateway :: registry where
  "reg_gateway = [(''svc-4'', svc_items), (''svc-5'', svc_report)]"

definition req_items :: request where
  "req_items = \<lparr>req_ID = ''req-2'', req_Method = ''GET'', req_Path = ''/v1/items'',
     req_Headers = Some 0, req_QueryParams = None, req_Body = [], req_ClientIP = ''10.0.0.1'',
     req_Timestamp = 0, req_Authenticated = False, req_UserID = [], req_Timeout = 30\<rparr>"

definition req_report :: request where
  "req_report = \<lparr>req_ID = ''req-3'', req_Method = ''GET'', req_Path = ''/v1/report'',
     req_Headers = Some 0, req_QueryParams = None, req_Body = [], req_ClientIP = ''10.0.0.1'',
     req_Timestamp = 0, req_Authenticated = False, req_UserID = [], req_Timeout = 30\<rparr>"

definition reply_ok :: http_reply where
  "reply_ok = \<lparr>reply_StatusCode = 200,
     reply_Header = [''Content-Type'' \<mapsto> [''application/json'']],
     reply_Body = ''report-body'', reply_LatencyMs = 3\<rparr>"

text \<open>
  Collaborators for the pipeline runs: the in-memory registry holding \<open>reg_gateway\<close>, an auth
  service that finds no credential in any request, and a backend that answers every call with
  \<open>reply_ok\<close>.
\<close>

definition collab_anonymous :: collaborators where
  "collab_anonymous =
     \<lparr>repo_GetByEndpoint = GetByEndpoint reg_gateway,
      auth_Authenticate = (\<lambda>headers request. (False, [], None)),
      auth_Authorize = (\<lambda>headers request svc endpoint. None),
      http_Do = (\<lambda>method url headers body. Inr reply_ok)\<rparr>"

definition collab_root :: collaborators where
  "collab_root =
     collab_anonymous
       \<lparr>auth_Authenticate := (\<lambda>headers request. (True, ''root'', None)),
        auth_Authorize := (\<lambda>headers request svc endpoint. Some (Msg ''forbidden''))\<rparr>"

definition world_start :: world where
  "world_start = \<lparr>w_heap = heap_one, w_redis = [], w_now = 0, w_backend_calls = 0\<rparr>"

definition world_after_report :: world where
  "world_after_report = snd (ProxyRequest collab_anonymous world_start (Some req_report))"









section \<open>Properties of the in-memory registry\<close>

text \<open>
  \<open>registry_ok\<close> holds of the empty registry and is kept by every mutating operation, so it
  holds of every state the registry reaches through \<open>Create\<close>, \<open>Update\<close> and \<open>Delete\<close>.
\<close>

lemma set_update_subset: "set (AList.update k v r) \<subseteq> insert (k, v) (set r)"
  by (induction r) auto

lemma distinct_names_update:
  "distinct (map fst r) \<Longrightarrow> distinct (map f r) \<Longrightarrow>
   (\<And>p. p \<in> set r \<Longrightarrow> fst p \<noteq> k \<Longrightarrow> f p \<noteq> f (k, v)) \<Longrightarrow>
   distinct (map f (AList.update k v r))"
proof (induction r)
  case Nil
  then show ?case by simp
next
  case (Cons p ps)
  show ?case
  proof (cases "fst p = k")
    case True
    have "f (k, v) \<notin> f ` set ps"
    proof
      assume "f (k, v) \<in> f ` set ps"
      then obtain q where q: "q \<in> set ps" "f q = f (k, v)" by auto
      from Cons.prems(1) True q(1) have "fst q \<noteq> k" by (auto simp: image_iff)
      with Cons.prems(3) [of q] q show False by simp
    qed
    with Cons.prems(2) True show ?thesis by simp
  next
    case False
    have ih: "distinct (map f (AList.update k v ps))"
      using Cons.IH Cons.prems by simp
    have "f p \<notin> f ` set (AList.update k v ps)"
    proof
      assume "f p \<in> f ` set (AList.update k v ps)"
      then obtain q where q: "q \<in> set (AList.update k v ps)" "f q = f p" by auto
      from q(1) set_update_subset [of k v ps] have "q = (k, v) \<or> q \<in> set ps" by auto
      then show False
      proof
        assume "q = (k, v)"
        with Cons.prems(3) [of p] False q(2) show False by simp
      next
        assume "q \<in> set ps"
        with Cons.prems(2) q(2) show False by (auto simp: image_iff)
      qed
    qed
    with ih False show ?thesis by simp
  qed
qed

lemma list_all_update:
  "list_all P r \<Longrightarrow> P (k, v) \<Longrightarrow> list_all P (AList.update k v r)"
  by (induction r) auto

lemma registry_ok_update:
  assumes ok: "registry_ok r" and idk: "svc_ID s = k"
    and fresh: "\<And>k' s'. (k', s') \<in> set r \<Longrightarrow> k' \<noteq> k \<Longrightarrow> svc_Name s' \<noteq> svc_Name s"
  shows "registry_ok (AList.update k s r)"
proof -
  from ok have d: "distinct (map fst r)" and a: "list_all (\<lambda>(k, s). svc_ID s = k) r"
    and n: "distinct (map (\<lambda>(k, s). svc_Name s) r)"
    by (simp_all add: registry_ok_def)
  have "distinct (map (\<lambda>(k, s). svc_Name s) (AList.update k s r))"
    using d n fresh by (intro distinct_names_update) auto
  moreover have "list_all (\<lambda>(k, s). svc_ID s = k) (AList.update k s r)"
    using a idk by (intro list_all_update) auto
  moreover have "distinct (map fst (AList.update k s r))"
    using d by (rule AList.distinct_update)
  ultimately show ?thesis by (simp add: registry_ok_def)
qed

lemma registry_ok_empty: "registry_ok []"
  by (simp add: registry_ok_def)

lemma Create_preserves_ok:
  assumes "registry_ok r" and "Create r s = Inr r'"
  shows "registry_ok r'"
proof -
  let ?s1 = "if svc_ID s = [] then s\<lparr>svc_ID := ''test-id''\<rparr> else s"
  from assms(2) have free: "\<not> list_ex (\<lambda>(k, s'). svc_Name s' = svc_Name s) r"
    and r': "r' = AList.update (svc_ID ?s1) ?s1 r"
    by (auto simp: Create_def Let_def split: if_splits)
  have nm: "svc_Name ?s1 = svc_Name s" by simp
  have "registry_ok (AList.update (svc_ID ?s1) ?s1 r)"
  proof (rule registry_ok_update [OF assms(1) refl])
    fix k' s' assume "(k', s') \<in> set r"
    with free have "svc_Name s' \<noteq> svc_Name s" by (auto simp: list_ex_iff)
    with nm show "svc_Name s' \<noteq> svc_Name ?s1" by simp
  qed
  with r' show ?thesis by simp
qed

lemma Update_preserves_ok:
  assumes "registry_ok r" and "Update r s = Inr r'"
  shows "registry_ok r'"
proof -
  from assms(2) have free: "\<not> list_ex (\<lambda>(k, s'). svc_Name s' = svc_Name s \<and> svc_ID s' \<noteq> svc_ID s) r"
    and r': "r' = AList.update (svc_ID s) s r"
    by (auto simp: Update_def split: option.splits if_splits)
  from assms(1) have a: "list_all (\<lambda>(k, s). svc_ID s = k) r" by (simp add: registry_ok_def)
  have "registry_ok (AList.update (svc_ID s) s r)"
  proof (rule registry_ok_update [OF assms(1) refl])
    fix k' s' assume in_r: "(k', s') \<in> set r" and ne: "k' \<noteq> svc_ID s"
    from a in_r have "svc_ID s' = k'" by (auto simp: list_all_iff)
    with free in_r ne show "svc_Name s' \<noteq> svc_Name s" by (auto simp: list_ex_iff)
  qed
  with r' show ?thesis by simp
qed

lemma Delete_preserves_ok:
  assumes "registry_ok r" and "Delete r ident = Inr r'"
  shows "registry_ok r'"
proof -
  from assms(2) have r': "r' = AList.delete ident r"
    by (auto simp: Delete_def split: option.splits)
  from assms(1) show ?thesis
    unfolding r' registry_ok_def AList.delete_eq
    by (auto simp: distinct_map_filter list_all_iff)
qed


text \<open>
  A further property, the registry invariant: the empty registry satisfies \<open>registry_ok\<close>, and a
  successful \<open>Create\<close>, \<open>Update\<close> or \<open>Delete\<close> on a registry that satisfies it yields one that
  satisfies it: keys stay distinct, every service stays stored under its own ID, and names stay
  unique.
\<close>

theorem registry_invariant:
  "registry_ok []
   \<and> (registry_ok r \<and> Create r s = Inr r' \<longrightarrow> registry_ok r')
   \<and> (registry_ok r \<and> Update r s = Inr r' \<longrightarrow> registry_ok r')
   \<and> (registry_ok r \<and> Delete r ident = Inr r' \<longrightarrow> registry_ok r')"
  using registry_ok_empty Create_preserves_ok Update_preserves_ok Delete_preserves_ok
  by blast

text \<open>
  An instance of the registry invariant: creating ``billing'', renaming ``users'' to ``people'' and deleting ``users''
  in the registry of ``users'' and ``orders'' each succeed and keep the invariant.
\<close>

theorem registry_invariant_witness:
  "registry_ok reg_two
   \<and> Create reg_two svc_billing
       = Inr (reg_two @ [(''test-id'', svc_billing\<lparr>svc_ID := ''test-id''\<rparr>)])
   \<and> registry_ok (reg_two @ [(''test-id'', svc_billing\<lparr>svc_ID := ''test-id''\<rparr>)])
   \<and> Update reg_two (svc_users\<lparr>svc_Name := ''people''\<rparr>)
       = Inr [(''svc-1'', svc_users\<lparr>svc_Name := ''people''\<rparr>), (''svc-2'', svc_orders)]
   \<and> registry_ok [(''svc-1'', svc_users\<lparr>svc_Name := ''people''\<rparr>), (''svc-2'', svc_orders)]
   \<and> Delete reg_two ''svc-1'' = Inr [(''svc-2'', svc_orders)]
   \<and> registry_ok [(''svc-2'', svc_orders)]"
proof -
  have ok: "registry_ok reg_two"
    by (simp add: registry_ok_def reg_two_def svc_users_def svc_orders_def)
  have c: "Create reg_two svc_billing
       = Inr (reg_two @ [(''test-id'', svc_billing\<lparr>svc_ID := ''test-id''\<rparr>)])"
    by (simp add: Create_def reg_two_def svc_users_def svc_orders_def svc_billing_def)
  have u: "Update reg_two (svc_users\<lparr>svc_Name := ''people''\<rparr>)
       = Inr [(''svc-1'', svc_users\<lparr>svc_Name := ''people''\<rparr>), (''svc-2'', svc_orders)]"
    by (simp add: Update_def reg_two_def svc_users_def svc_orders_def)
  have d: "Delete reg_two ''svc-1'' = Inr [(''svc-2'', svc_orders)]"
    by (simp add: Delete_def reg_two_def AList.delete_eq)
  from registry_invariant [where r = reg_two and s = svc_billing
      and r' = "reg_two @ [(''test-id'', svc_billing\<lparr>svc_ID := ''test-id''\<rparr>)]"] ok c
  have okc: "registry_ok (reg_two @ [(''test-id'', svc_billing\<lparr>svc_ID := ''test-id''\<rparr>)])"
    by simp
  from registry_invariant [where r = reg_two and s = "svc_users\<lparr>svc_Name := ''people''\<rparr>"
      and r' = "[(''svc-1'', svc_users\<lparr>svc_Name := ''people''\<rparr>), (''svc-2'', svc_orders)]"] ok u
  have oku: "registry_ok [(''svc-1'', svc_users\<lparr>svc_Name := ''people''\<rparr>), (''svc-2'', svc_orders)]"
    by simp
  from registry_invariant [where r = reg_two and r' = "[(''svc-2'', svc_orders)]"
      and ident = "''svc-1''"] ok d
  have okd: "registry_ok [(''svc-2'', svc_orders)]"
    by simp
  from ok c okc u oku d okd show ?thesis by simp
qed







section \<open>Properties of the endpoint lookup\<close>

text \<open>
  A further property, of \<open>FindEndpoint\<close>: the lookup answers nil exactly when no endpoint of the service
  has the given path and lists the given method, and an endpoint it answers is the first one in
  declaration order that has the path and lists the method (a \<^verbatim>\<open>*\<close> in the methods list is not
  a wildcard here).
\<close>

theorem FindEndpoint_first_match:
  "(FindEndpoint s path method = None
      \<longleftrightarrow> \<not> list_ex (\<lambda>e. ep_Path e = path \<and> method \<in> set (ep_Methods e)) (svc_Endpoints s))
   \<and> (FindEndpoint s path method = Some e
      \<longrightarrow> (\<exists>i < length (svc_Endpoints s). svc_Endpoints s ! i = e
             \<and> ep_Path e = path \<and> method \<in> set (ep_Methods e)
             \<and> (\<forall>j < i. \<not> (ep_Path (svc_Endpoints s ! j) = path
                          \<and> method \<in> set (ep_Methods (svc_Endpoints s ! j))))))"
  by (auto simp: FindEndpoint_def find_None_iff find_Some_iff list_ex_iff)

text \<open>
  An instance: on \<open>svc_items\<close>, which declares \<^verbatim>\<open>/v1/items\<close> for POST and then for GET, the
  lookup for GET answers the second endpoint and the lookup for DELETE answers nil.
\<close>

theorem FindEndpoint_first_match_witness:
  "FindEndpoint svc_items ''/v1/items'' ''GET'' = Some ep_items_get
   \<and> svc_Endpoints svc_items ! 1 = ep_items_get
   \<and> ep_Path ep_items_get = ''/v1/items''
   \<and> ''GET'' \<in> set (ep_Methods ep_items_get)
   \<and> ''GET'' \<notin> set (ep_Methods (svc_Endpoints svc_items ! 0))
   \<and> FindEndpoint svc_items ''/v1/items'' ''DELETE'' = None"
proof -
  have f: "FindEndpoint svc_items ''/v1/items'' ''GET'' = Some ep_items_get"
    by (simp add: FindEndpoint_def svc_items_def ep_items_post_def ep_items_get_def)
  have n: "\<not> list_ex (\<lambda>e. ep_Path e = ''/v1/items'' \<and> ''DELETE'' \<in> set (ep_Methods e))
             (svc_Endpoints svc_items)"
    by (simp add: svc_items_def ep_items_post_def ep_items_get_def)
  from FindEndpoint_first_match [of svc_items "''/v1/items''" "''DELETE''"] n
  have d: "FindEndpoint svc_items ''/v1/items'' ''DELETE'' = None" by simp
  from FindEndpoint_first_match [of svc_items "''/v1/items''" "''GET''" ep_items_get] f
  have "ep_Path ep_items_get = ''/v1/items'' \<and> ''GET'' \<in> set (ep_Methods ep_items_get)"
    by blast
  with f d show ?thesis
    by (simp add: svc_items_def ep_items_post_def ep_items_get_def)
qed

section \<open>Properties of the gateway's transformations\<close>

lemma headers_after_store:
  "headers_at (map_store (map_store h a k1 v1) a k2 v2) (Some a)
     = (cells h a)(k1 \<mapsto> v1, k2 \<mapsto> v2)"
  by (simp add: headers_at_def map_store_def)

text \<open>
  Claim C5, as amended: for every request and every response, the transformation succeeds and
  the headers of its result are the headers of the input with \<^verbatim>\<open>X-Service-ID\<close> and
  \<^verbatim>\<open>X-Service-Name\<close> set to the service's ID and name. Nothing is removed: each of the eight
  hop-by-hop headers has in the result the value, or the absence, it has in the input.
\<close>

theorem transforms_keep_input_headers:
  "(\<exists>transformed h'. TransformRequest h request svc = (Inr transformed, h')
      \<and> headers_at h' (req_Headers transformed)
          = (headers_at h (req_Headers request))
              (''X-Service-ID'' \<mapsto> [svc_ID svc], ''X-Service-Name'' \<mapsto> [svc_Name svc])
      \<and> list_all (\<lambda>n. headers_at h' (req_Headers transformed) n
                          = headers_at h (req_Headers request) n) hopByHopHeaders)
   \<and> (\<exists>transformed h'. TransformResponse h response svc = (Inr transformed, h')
      \<and> headers_at h' (resp_Headers transformed)
          = (headers_at h (resp_Headers response))
              (''X-Service-ID'' \<mapsto> [svc_ID svc], ''X-Service-Name'' \<mapsto> [svc_Name svc])
      \<and> list_all (\<lambda>n. headers_at h' (resp_Headers transformed) n
                          = headers_at h (resp_Headers response) n) hopByHopHeaders)"
proof (rule conjI)
  show "\<exists>transformed h'. TransformRequest h request svc = (Inr transformed, h')
      \<and> headers_at h' (req_Headers transformed)
          = (headers_at h (req_Headers request))
              (''X-Service-ID'' \<mapsto> [svc_ID svc], ''X-Service-Name'' \<mapsto> [svc_Name svc])
      \<and> list_all (\<lambda>n. headers_at h' (req_Headers transformed) n
                          = headers_at h (req_Headers request) n) hopByHopHeaders"
    by (cases "req_Headers request")
      (simp_all add: TransformRequest_def Let_def alloc_map_def headers_after_store
        headers_at_def map_store_def hopByHopHeaders_def)
  show "\<exists>transformed h'. TransformResponse h response svc = (Inr transformed, h')
      \<and> headers_at h' (resp_Headers transformed)
          = (headers_at h (resp_Headers response))
              (''X-Service-ID'' \<mapsto> [svc_ID svc], ''X-Service-Name'' \<mapsto> [svc_Name svc])
      \<and> list_all (\<lambda>n. headers_at h' (resp_Headers transformed) n
                          = headers_at h (resp_Headers response) n) hopByHopHeaders"
    by (cases "resp_Headers response")
      (simp_all add: TransformResponse_def Let_def alloc_map_def headers_after_store
        headers_at_def map_store_def hopByHopHeaders_def)
qed

text \<open>
  Counterexample to C5 as stated: a request and a response whose header map holds
  \<^verbatim>\<open>Connection: keep-alive\<close> still carry that header after the transformation.
\<close>

theorem hop_by_hop_survives_counterexample:
  "headers_at heap_one (req_Headers req_users) ''Connection'' = Some [''keep-alive'']
   \<and> fst (TransformRequest heap_one req_users svc_users) = Inr (req_users\<lparr>req_Timeout := 0\<rparr>)
   \<and> headers_at (snd (TransformRequest heap_one req_users svc_users))
        (req_Headers (req_users\<lparr>req_Timeout := 0\<rparr>)) ''Connection'' = Some [''keep-alive'']
   \<and> headers_at heap_one (resp_Headers resp_backend) ''Connection'' = Some [''keep-alive'']
   \<and> fst (TransformResponse heap_one resp_backend svc_users) = Inr resp_backend
   \<and> headers_at (snd (TransformResponse heap_one resp_backend svc_users))
        (resp_Headers resp_backend) ''Connection'' = Some [''keep-alive'']"
  by (simp add: TransformRequest_def TransformResponse_def Let_def headers_at_def map_store_def
      heap_one_def req_users_def resp_backend_def svc_users_def)

text \<open>
  Claim C8 (the original request is left unchanged) does not hold of the code: the new
  request shares the header map of the original. For a request whose header map holds neither
  \<^verbatim>\<open>X-Service-ID\<close> nor \<^verbatim>\<open>X-Service-Name\<close>, both are visible through the original request's
  \<^verbatim>\<open>Headers\<close> field once \<open>TransformRequest\<close> has returned.
\<close>

theorem TransformRequest_mutates_original:
  "headers_at heap_one (req_Headers req_users) ''X-Service-ID'' = None
   \<and> headers_at heap_one (req_Headers req_users) ''X-Service-Name'' = None
   \<and> headers_at (snd (TransformRequest heap_one req_users svc_users)) (req_Headers req_users)
        ''X-Service-ID'' = Some [''svc-1'']
   \<and> headers_at (snd (TransformRequest heap_one req_users svc_users)) (req_Headers req_users)
        ''X-Service-Name'' = Some [''users'']"
  by (simp add: TransformRequest_def Let_def headers_at_def map_store_def
      heap_one_def req_users_def svc_users_def)

section \<open>Properties of the cache's clear\<close>

lemma glob_match_star: "glob_match ''*'' key"
  by (induction key) simp_all

lemma redis_Scan_star: "redis_Scan now st ''*'' = map fst (filter (\<lambda>(k, e). live now e) st)"
  by (simp add: redis_Scan_def glob_match_star)

lemma map_of_fold_Del:
  "map_of (fold (\<lambda>key st'. redis_Del st' key) keys st) k
     = (if k \<in> set keys then None else map_of st k)"
  by (induction keys arbitrary: st) (simp_all add: redis_Del_def AList.delete_conv)

lemma lookup_not_live:
  "k \<notin> set (map fst (filter (\<lambda>(k, e). live now e) st)) \<Longrightarrow> redis_lookup now st k = None"
  by (induction st) (auto simp: redis_lookup_def split: if_splits)

text \<open>
  Claim C9, as amended: the cache's \<open>clear\<close> scans with the pattern \<^verbatim>\<open>*\<close> and so removes every key
  of the key-value store it is connected to, whatever the key's prefix: it reports no error,
  and afterwards no key of the store has a value. The keys of the rate limiter, which live in
  the same store, are removed with the rest.
\<close>

theorem Clear_removes_every_key:
  "fst (CacheService_Clear now st) = None
   \<and> redis_Get now (snd (CacheService_Clear now st)) key = None"
proof -
  let ?keys = "map fst (filter (\<lambda>(k, e). live now e) st)"
  have st': "snd (CacheService_Clear now st) = fold (\<lambda>key st'. redis_Del st' key) ?keys st"
    by (simp add: CacheService_Clear_def RedisCache_Clear_def redis_Scan_star)
  have "redis_lookup now (snd (CacheService_Clear now st)) key = None"
  proof (cases "key \<in> set ?keys")
    case True
    then show ?thesis
      unfolding st' redis_lookup_def map_of_fold_Del by simp
  next
    case False
    then have "redis_lookup now st key = None" by (rule lookup_not_live)
    with False show ?thesis
      unfolding st' redis_lookup_def map_of_fold_Del by simp
  qed
  then show ?thesis
    by (simp add: redis_Get_def CacheService_Clear_def RedisCache_Clear_def)
qed

text \<open>
  Counterexample to C9 as stated: a rate-limit counter (key prefixed \<^verbatim>\<open>ratelimit:\<close>) holding 1
  has no value after \<open>clear\<close>.
\<close>

theorem Clear_removes_ratelimit_counterexample:
  "redis_Get 5 store_counter (ratelimit_key req_users svc_users) = Some (IntText 1)
   \<and> redis_Get 5 (snd (CacheService_Clear 5 store_counter)) (ratelimit_key req_users svc_users)
       = None"
  by (simp add: redis_Get_def redis_lookup_def live_def store_counter_def ratelimit_key_def
      req_users_def svc_users_def CacheService_Clear_def RedisCache_Clear_def redis_Scan_def
      redis_Del_def AList.delete_eq)

section \<open>Behaviour of the rate limiter on a new key\<close>

text \<open>
  Claim C2 (token-bucket conservation) does not hold of the code. With \<^verbatim>\<open>rateLimit = 2\<close> and no
  counter key: before any \<open>RecordRequest\<close> the check admits the request, and after one
  \<open>RecordRequest\<close> (k = 1, below the limit of 2) the check already answers false.
\<close>

theorem second_request_refused:
  "ep_RateLimit ep_users_get = 2
   \<and> CheckLimit 0 [] req_users svc_users ep_users_get = Inr True
   \<and> CheckLimit 0 (record_times 1 0 [] req_users svc_users ep_users_get)
        req_users svc_users ep_users_get = Inr False"
  by (simp add: CheckLimit_def RecordRequest_def redis_Decr_def redis_Get_def redis_lookup_def
      redis_Expire_def live_def wrap64_def int64_range_def ratelimit_key_def
      req_users_def svc_users_def ep_users_get_def)

text \<open>
  Claim C3 (a new counter starts at the rate limit and gets a 60-second expiry) does not hold
  of the code. With \<^verbatim>\<open>rateLimit = 2\<close> and no counter key, \<open>RecordRequest\<close> leaves the counter at -1,
  not at 1, and the key has no expiry.
\<close>

theorem first_record_leaves_minus_one:
  "ep_RateLimit ep_users_get = 2
   \<and> redis_lookup 0 [] (ratelimit_key req_users svc_users) = None
   \<and> RecordRequest 0 [] req_users svc_users ep_users_get
       = (None, [(ratelimit_key req_users svc_users,
                  \<lparr>re_value = IntText (- 1), re_expires = None\<rparr>)])"
  by (simp add: RecordRequest_def redis_Decr_def redis_lookup_def
      redis_Expire_def live_def wrap64_def int64_range_def ep_users_get_def)

text \<open>
  The two evaluations above do not depend on the example: whenever the counter key does not
  exist, one \<open>RecordRequest\<close> succeeds, leaves the counter at -1, and the next check answers
  false, whatever the endpoint's rate limit.
\<close>

lemma record_on_new_key:
  assumes "redis_lookup now st (ratelimit_key request svc) = None"
  shows "fst (RecordRequest now st request svc endpoint) = None
    \<and> redis_Get now (snd (RecordRequest now st request svc endpoint)) (ratelimit_key request svc)
        = Some (IntText (- 1))
    \<and> CheckLimit now (snd (RecordRequest now st request svc endpoint)) request svc endpoint
        = Inr False"
  using assms
  by (simp add: RecordRequest_def redis_Decr_def redis_Expire_def redis_lookup_def redis_Get_def
      CheckLimit_def AList.update_conv' live_def int64_range_def)

section \<open>Runs of the proxy pipeline\<close>

lemmas pipeline_defs =
  ProxyRequest_def ProxyRequest_limited_def ProxyRequest_cached_def ProxyRequest_forward_def
  ValidateRequest_def endpoint_for_path_def cacheKey_def RouteRequest_def SendRequest_def
  TransformRequest_def TransformResponse_def alloc_map_def map_store_def headers_at_def
  CacheService_Get_def CacheService_Set_def RedisCache_Get_def RedisCache_Set_def
  redis_Get_def redis_Set_def redis_lookup_def live_def json_Marshal_def json_Unmarshal_def
  GetByEndpoint_def matches_of_service_def endpoint_matches_def method_supported_def

lemmas example_defs =
  collab_anonymous_def world_start_def heap_one_def reg_gateway_def svc_items_def
  svc_report_def ep_items_post_def ep_items_get_def ep_report_def req_items_def
  req_report_def reply_ok_def

text \<open>
  Claim C1 (the pipeline selects the first endpoint that matches path and method) does not
  hold of the code: the pipeline's loop compares the path only. The service \<open>svc_items\<close> declares
  \<^verbatim>\<open>/v1/items\<close> twice, first for POST with authentication required, then for GET without. For
  an anonymous \<^verbatim>\<open>GET /v1/items\<close> the registry resolves the service (through its second
  endpoint), the pipeline's loop picks the first endpoint, whose methods list contains neither
  GET nor \<^verbatim>\<open>*\<close>, and the request is refused as unauthorized; \<open>FindEndpoint\<close> of the entity
  package picks the second endpoint for the same path and method.
\<close>

theorem pipeline_selects_by_path_only:
  "GetByEndpoint reg_gateway ''/v1/items'' ''GET'' = Inr [svc_items]
   \<and> svc_Endpoints svc_items = [ep_items_post, ep_items_get]
   \<and> method_supported (ep_Methods ep_items_post) ''GET'' = False
   \<and> endpoint_matches ''/v1/items'' ''GET'' ep_items_get
   \<and> endpoint_for_path (svc_Endpoints svc_items) ''/v1/items'' = Some ep_items_post
   \<and> FindEndpoint svc_items ''/v1/items'' ''GET'' = Some ep_items_get
   \<and> fst (ProxyRequest collab_anonymous world_start (Some req_items)) = Inl (Msg ''unauthorized'')"
  by (simp add: pipeline_defs example_defs FindEndpoint_def Let_def)

text \<open>
  Claim C4 (cache round-trip) does not hold of the code. The endpoint \<open>ep_report\<close> has
  \<^verbatim>\<open>cacheTTL = 30\<close>. A first \<^verbatim>\<open>GET /v1/report\<close> at time 0 calls the backend once and stores the
  response. The same request at time 1 is not answered from the cache: its response has
  \<^verbatim>\<open>CachedResult = false\<close> and the backend has been called a second time. The stored entry has
  no expiry, and at time 31, after the endpoint's TTL, the cache lookup still finds it.
\<close>

theorem cached_response_never_served:
  "ep_CacheTTL ep_report = 30
   \<and> w_backend_calls world_after_report = 1
   \<and> map_sum id resp_CachedResult
        (fst (ProxyRequest collab_anonymous (world_after_report\<lparr>w_now := 1\<rparr>) (Some req_report)))
       = Inr False
   \<and> w_backend_calls
        (snd (ProxyRequest collab_anonymous (world_after_report\<lparr>w_now := 1\<rparr>) (Some req_report)))
       = 2
   \<and> map_option re_expires (map_of (w_redis world_after_report) (cacheKey svc_report req_report))
       = Some None
   \<and> snd (CacheService_Get 31 (w_redis world_after_report) (cacheKey svc_report req_report))
       = (True, None)"
  by (simp add: world_after_report_def pipeline_defs example_defs Let_def)

text \<open>
  The second request of the run above is forwarded for a reason that does not depend on the
  example: what \<open>CacheService_Get\<close> hands back is never a \<^verbatim>\<open>*entity.Response\<close>, so the
  pipeline's cache lookup never answers a request.
\<close>

lemma CacheService_Get_not_ResponsePtr:
  "CacheService_Get now st key \<noteq> (Some (ResponsePtr response), True, None)"
  by (simp add: CacheService_Get_def RedisCache_Get_def json_Unmarshal_def
      split: option.splits payload.splits)

lemma cache_lookup_always_forwards:
  "ProxyRequest_cached c w request svc endpoint = ProxyRequest_forward c w request svc endpoint"
proof (cases "0 < ep_CacheTTL endpoint")
  case False
  then show ?thesis by (simp add: ProxyRequest_cached_def)
next
  case True
  obtain v found err where g: "CacheService_Get (w_now w) (w_redis w) (cacheKey svc request) = (v, found, err)"
    by (cases "CacheService_Get (w_now w) (w_redis w) (cacheKey svc request)") auto
  with CacheService_Get_not_ResponsePtr [of "w_now w" "w_redis w" "cacheKey svc request"]
  have "\<And>response. (v, found, err) \<noteq> (Some (ResponsePtr response), True, None)" by simp
  with g True show ?thesis
    by (auto simp: ProxyRequest_cached_def split: option.splits go_value.splits bool.splits)
qed

lemma route_ignores_auth:
  "RouteRequest (c\<lparr>auth_Authenticate := authenticate, auth_Authorize := authorize\<rparr>) w request
     = RouteRequest c w request"
  by (simp add: RouteRequest_def SendRequest_def)

lemma forward_ignores_auth:
  "ProxyRequest_forward (c\<lparr>auth_Authenticate := authenticate, auth_Authorize := authorize\<rparr>)
     w request svc endpoint = ProxyRequest_forward c w request svc endpoint"
  by (simp add: ProxyRequest_forward_def route_ignores_auth split: prod.splits sum.splits)

lemma cached_ignores_auth:
  "ProxyRequest_cached (c\<lparr>auth_Authenticate := authenticate, auth_Authorize := authorize\<rparr>)
     w request svc endpoint = ProxyRequest_cached c w request svc endpoint"
  by (simp add: ProxyRequest_cached_def forward_ignores_auth
      split: prod.splits option.splits go_value.splits bool.splits)

lemma limited_ignores_auth:
  "ProxyRequest_limited (c\<lparr>auth_Authenticate := authenticate, auth_Authorize := authorize\<rparr>)
     w request svc endpoint = ProxyRequest_limited c w request svc endpoint"
  by (simp add: ProxyRequest_limited_def cached_ignores_auth split: sum.splits)

text \<open>
  A further property, auth gating (P6 of the specification). For a valid request that resolves to a
  service and an endpoint of it:
  \<^item> when the endpoint requires authentication and the auth service finds the request not
    authenticated, the pipeline fails with ``unauthorized'' and leaves the state as it was: no
    rate-limit record, no cache access, no backend call;
  \<^item> when the endpoint does not require authentication, the outcome and the final state do not
    depend on the auth service: replacing both of its operations changes nothing.
\<close>

theorem auth_gating:
  "(ValidateRequest (Some req) = None
      \<and> repo_GetByEndpoint c (req_Path req) (req_Method req) = Inr (svc # others)
      \<and> endpoint_for_path (svc_Endpoints svc) (req_Path req) = Some endpoint
      \<and> ep_AuthRequired endpoint
      \<and> auth_Authenticate c (headers_at (w_heap w) (req_Headers req)) req = (False, userID, None)
    \<longrightarrow> ProxyRequest c w (Some req) = (Inl (Msg ''unauthorized''), w))
   \<and> (ValidateRequest (Some req) = None
      \<and> repo_GetByEndpoint c (req_Path req) (req_Method req) = Inr (svc # others)
      \<and> endpoint_for_path (svc_Endpoints svc) (req_Path req) = Some endpoint
      \<and> \<not> ep_AuthRequired endpoint
    \<longrightarrow> ProxyRequest (c\<lparr>auth_Authenticate := authenticate, auth_Authorize := authorize\<rparr>) w (Some req)
        = ProxyRequest c w (Some req))"
  by (simp add: ProxyRequest_def limited_ignores_auth)

text \<open>
  An instance of auth gating: the anonymous \<^verbatim>\<open>GET /v1/items\<close>, resolved to the endpoint that requires
  authentication, is refused with the state unchanged; \<^verbatim>\<open>GET /v1/report\<close>, whose endpoint
  does not, runs the same with an auth service that authenticates and then refuses everybody.
\<close>

theorem auth_gating_witness:
  "ValidateRequest (Some req_items) = None
   \<and> repo_GetByEndpoint collab_anonymous (req_Path req_items) (req_Method req_items)
       = Inr [svc_items]
   \<and> endpoint_for_path (svc_Endpoints svc_items) (req_Path req_items) = Some ep_items_post
   \<and> ep_AuthRequired ep_items_post
   \<and> ProxyRequest collab_anonymous world_start (Some req_items)
       = (Inl (Msg ''unauthorized''), world_start)
   \<and> ValidateRequest (Some req_report) = None
   \<and> repo_GetByEndpoint collab_anonymous (req_Path req_report) (req_Method req_report)
       = Inr [svc_report]
   \<and> endpoint_for_path (svc_Endpoints svc_report) (req_Path req_report) = Some ep_report
   \<and> ep_AuthRequired ep_report = False
   \<and> ProxyRequest collab_root world_start (Some req_report)
       = ProxyRequest collab_anonymous world_start (Some req_report)"
proof -
  have v1: "ValidateRequest (Some req_items) = None"
    and v2: "ValidateRequest (Some req_report) = None"
    by (simp_all add: ValidateRequest_def req_items_def req_report_def)
  have g1: "repo_GetByEndpoint collab_anonymous (req_Path req_items) (req_Method req_items)
       = Inr [svc_items]"
    and g2: "repo_GetByEndpoint collab_anonymous (req_Path req_report) (req_Method req_report)
       = Inr [svc_report]"
    by (simp_all add: pipeline_defs example_defs)
  have e1: "endpoint_for_path (svc_Endpoints svc_items) (req_Path req_items) = Some ep_items_post"
    and e2: "endpoint_for_path (svc_Endpoints svc_report) (req_Path req_report) = Some ep_report"
    by (simp_all add: pipeline_defs example_defs)
  have a1: "ep_AuthRequired ep_items_post" and a2: "ep_AuthRequired ep_report = False"
    by (simp_all add: ep_items_post_def ep_report_def)
  have au: "auth_Authenticate collab_anonymous
              (headers_at (w_heap world_start) (req_Headers req_items)) req_items
            = (False, [], None)"
    by (simp add: collab_anonymous_def)
  from auth_gating [where req = req_items and c = collab_anonymous and svc = svc_items
      and others = "[]" and endpoint = ep_items_post and w = world_start and userID = "[]"]
    v1 g1 e1 a1 au
  have r1: "ProxyRequest collab_anonymous world_start (Some req_items)
       = (Inl (Msg ''unauthorized''), world_start)"
    by simp
  from auth_gating [where req = req_report and c = collab_anonymous and svc = svc_report
      and others = "[]" and endpoint = ep_report and w = world_start
      and authenticate = "\<lambda>headers request. (True, ''root'', None)"
      and authorize = "\<lambda>headers request svc endpoint. Some (Msg ''forbidden'')"]
    v2 g2 e2 a2
  have r2: "ProxyRequest collab_root world_start (Some req_report)
       = ProxyRequest collab_anonymous world_start (Some req_report)"
    by (simp add: collab_root_def)
  from v1 g1 e1 a1 r1 v2 g2 e2 a2 r2 show ?thesis by simp
qed

section \<open>Token round trip\<close>









end
